theory Spec2Isabelle
  imports Main "HOL-Library.Sublist"
begin

section \<open>User Management API: data model\<close>

text \<open>
  The service keeps one table \<^verbatim>\<open>users\<close> behind a SQLAlchemy session and exposes
  create, list, read, update and delete handlers (\<^verbatim>\<open>backend/app/main.py\<close>) on top of
  the storage helpers of \<^verbatim>\<open>backend/app/crud.py\<close>.

  Timestamps are produced by the store (\<^verbatim>\<open>func.now()\<close>); the clock reading of the
  statement is passed to every operation as \<open>now\<close>.
\<close>

type_synonym datetime = nat

text \<open>
  \<^verbatim>\<open>models.User\<close>. A Python attribute of the mapped object may hold \<^verbatim>\<open>None\<close> whatever the
  column says, so the three non-nullable columns are optional here as well; that no stored
  row has \<^verbatim>\<open>None\<close> in them is the job of the constraints checked when the session
  flushes. The primary key is \<open>id'\<close> (\<^verbatim>\<open>id\<close> in the source).
\<close>

record User =
  id' :: int
  email :: "string option"
  username :: "string option"
  full_name :: "string option"
  is_active :: "bool option"
  created_at :: datetime
  updated_at :: "datetime option"

text \<open>
  \<^verbatim>\<open>schemas.UserCreate\<close> after validation: \<^verbatim>\<open>email\<close> and \<^verbatim>\<open>username\<close> are required
  strings, \<^verbatim>\<open>full_name\<close> is \<^verbatim>\<open>Optional[str]\<close>, \<^verbatim>\<open>is_active\<close> is a \<^verbatim>\<open>bool\<close>.
\<close>

record UserCreate =
  email :: string
  username :: string
  full_name :: "string option"
  is_active :: bool

text \<open>\<^verbatim>\<open>str.lower()\<close> on the letters of ASCII.\<close>

definition to_lower :: "char \<Rightarrow> char" where
  "to_lower c =
     (case map_of (zip ''ABCDEFGHIJKLMNOPQRSTUVWXYZ'' ''abcdefghijklmnopqrstuvwxyz'') c of
        None \<Rightarrow> c
      | Some l \<Rightarrow> l)"

text \<open>
  \<^verbatim>\<open>EmailStr\<close>: the field type checks the syntax of the address and hands on the
  normalised address, not the text of the payload: the part after the last \<^verbatim>\<open>@\<close> in
  lower case, the part before it as it is. The syntax check itself belongs to a library
  and is the parameter \<open>valid_email\<close>; \<open>None\<close> is the validation error (status 422).
\<close>

definition domain_of :: "string \<Rightarrow> string" where
  "domain_of s = rev (takeWhile (\<lambda>c. c \<noteq> CHR ''@'') (rev s))"

definition normalize_email :: "string \<Rightarrow> string" where
  "normalize_email s = take (length s - length (domain_of s)) s @ map to_lower (domain_of s)"



text \<open>
  \<^verbatim>\<open>schemas.UserUpdate\<close>: every field is \<^verbatim>\<open>Optional[...] = None\<close>, and pydantic remembers
  which fields the body supplied. So every field has three states: \<open>None\<close> (not in the
  body), \<open>Some None\<close> (in the body, \<^verbatim>\<open>null\<close>) and \<open>Some (Some v)\<close>.
\<close>

record UserUpdate =
  email :: "string option option"
  username :: "string option option"
  full_name :: "string option option"
  is_active :: "bool option option"

text \<open>Reading an attribute of the update object: an unset field reads as its default \<^verbatim>\<open>None\<close>.\<close>

definition attr :: "'a option option \<Rightarrow> 'a option" where
  "attr f = (case f of None \<Rightarrow> None | Some v \<Rightarrow> v)"

text \<open>Python truthiness of an \<^verbatim>\<open>Optional[str]\<close>: \<^verbatim>\<open>None\<close> and the empty string are false.\<close>

definition truthy :: "string option \<Rightarrow> bool" where
  "truthy v = (case v of None \<Rightarrow> False | Some s \<Rightarrow> s \<noteq> [])"

text \<open>
  \<^verbatim>\<open>user.model_dump(exclude_unset=True)\<close>: the supplied fields with their values, in the
  order of the class. Each entry is a field name with a value of that field's type.
\<close>

datatype assignment =
  Set_email "string option"
| Set_username "string option"
| Set_full_name "string option"
| Set_is_active "bool option"

definition model_dump :: "UserUpdate \<Rightarrow> assignment list" where
  "model_dump user =
     (case UserUpdate.email user of None \<Rightarrow> [] | Some v \<Rightarrow> [Set_email v]) @
     (case UserUpdate.username user of None \<Rightarrow> [] | Some v \<Rightarrow> [Set_username v]) @
     (case UserUpdate.full_name user of None \<Rightarrow> [] | Some v \<Rightarrow> [Set_full_name v]) @
     (case UserUpdate.is_active user of None \<Rightarrow> [] | Some v \<Rightarrow> [Set_is_active v])"

fun setattr :: "User \<Rightarrow> assignment \<Rightarrow> User" where
  "setattr u (Set_email v) = u\<lparr>User.email := v\<rparr>"
| "setattr u (Set_username v) = u\<lparr>User.username := v\<rparr>"
| "setattr u (Set_full_name v) = u\<lparr>User.full_name := v\<rparr>"
| "setattr u (Set_is_active v) = u\<lparr>User.is_active := v\<rparr>"

text \<open>
  The field constraints of \<^verbatim>\<open>UserUpdate\<close>, on an object that holds the values as
  validation hands them on. A \<^verbatim>\<open>null\<close> passes every \<^verbatim>\<open>Optional\<close> field.
\<close>

definition UserUpdate_valid :: "(string \<Rightarrow> bool) \<Rightarrow> UserUpdate \<Rightarrow> bool" where
  "UserUpdate_valid valid_email user \<longleftrightarrow>
     (case attr (UserUpdate.email user) of None \<Rightarrow> True | Some s \<Rightarrow> valid_email s) \<and>
     (case attr (UserUpdate.username user) of None \<Rightarrow> True
      | Some s \<Rightarrow> 3 \<le> length s \<and> length s \<le> 50) \<and>
     (case attr (UserUpdate.full_name user) of None \<Rightarrow> True | Some s \<Rightarrow> length s \<le> 100)"

section \<open>The store\<close>

text \<open>
  The table and the sequence behind the autoincrement key. \<open>users\<close> lists the rows in the
  order in which a query without ORDER BY returns them: an INSERT adds its row at the
  end, and so does an UPDATE, which writes a new version of the row. \<open>id_seq\<close> is the last
  key the sequence has handed out (0 before the first). The key column is a 32-bit
  \<^verbatim>\<open>Integer\<close>: 2147483647 is the last key there is.

  The session of a request is created and closed by \<^verbatim>\<open>get_db\<close>, so nothing but the
  committed table survives a request. Every statement reads the table as committed at
  that moment (PostgreSQL's default isolation).
\<close>

record Database =
  users :: "User list"
  id_seq :: int

text \<open>
  What the constraints of \<^verbatim>\<open>models.User\<close> reject: \<^verbatim>\<open>nullable=False\<close> on \<^verbatim>\<open>email\<close>,
  \<^verbatim>\<open>username\<close> and \<^verbatim>\<open>is_active\<close>, \<^verbatim>\<open>unique=True\<close> on \<^verbatim>\<open>email\<close> and \<^verbatim>\<open>username\<close>.
  SQLAlchemy raises \<^verbatim>\<open>IntegrityError\<close> for each of them.
\<close>

datatype violation = NotNullViolation string | UniqueViolation string

datatype exn =
  HTTPException int string
| IntegrityError violation
| DataError

definition constraint_violation :: "User list \<Rightarrow> User \<Rightarrow> violation option" where
  "constraint_violation others row =
     (if User.email row = None then Some (NotNullViolation ''email'')
      else if User.username row = None then Some (NotNullViolation ''username'')
      else if User.is_active row = None then Some (NotNullViolation ''is_active'')
      else if User.email row \<in> set (map User.email others) then Some (UniqueViolation ''email'')
      else if User.username row \<in> set (map User.username others)
        then Some (UniqueViolation ''username'')
      else None)"

section \<open>crud.py\<close>

definition crud_get_user :: "Database \<Rightarrow> int \<Rightarrow> User option" where
  "crud_get_user db user_id = find (\<lambda>u. id' u = user_id) (users db)"

definition crud_get_user_by_email :: "Database \<Rightarrow> string \<Rightarrow> User option" where
  "crud_get_user_by_email db e = find (\<lambda>u. User.email u = Some e) (users db)"

definition crud_get_user_by_username :: "Database \<Rightarrow> string \<Rightarrow> User option" where
  "crud_get_user_by_username db n = find (\<lambda>u. User.username u = Some n) (users db)"

text \<open>
  \<^verbatim>\<open>query.offset(skip).limit(limit).all()\<close>. OFFSET and LIMIT are 64-bit integers of the
  store and must not be negative: a value below 0 or from \<open>2\<^sup>6\<^sup>3\<close> on is refused,
  which surfaces as \<^verbatim>\<open>DataError\<close>.
\<close>

definition crud_get_users :: "Database \<Rightarrow> int \<Rightarrow> int \<Rightarrow> exn + User list" where
  "crud_get_users db skip limit =
     (if skip < 0 \<or> limit < 0 \<or> 9223372036854775808 \<le> skip \<or> 9223372036854775808 \<le> limit
      then Inl DataError
      else Inr (take (nat limit) (drop (nat skip) (users db))))"

text \<open>
  \<^verbatim>\<open>crud.create_user\<close>: build the object, \<^verbatim>\<open>add\<close>, \<^verbatim>\<open>commit\<close>, \<^verbatim>\<open>refresh\<close>. The INSERT
  first takes the next key from the sequence. Once the sequence has handed out
  2147483647 there is no next key and the INSERT fails with \<^verbatim>\<open>DataError\<close>, which nothing
  in the repository catches. Otherwise the sequence moves on, also when the row is then
  refused. The store fills \<^verbatim>\<open>created_at\<close> from \<^verbatim>\<open>server_default=func.now()\<close>;
  \<^verbatim>\<open>updated_at\<close> has no insert default and stays NULL.
\<close>

definition crud_create_user :: "Database \<Rightarrow> datetime \<Rightarrow> UserCreate \<Rightarrow> Database \<times> (exn + User)" where
  "crud_create_user db now user =
     (if 2147483647 \<le> id_seq db then (db, Inl DataError)
      else
        (let db_user = \<lparr>id' = id_seq db + 1,
                        User.email = Some (UserCreate.email user),
                        User.username = Some (UserCreate.username user),
                        User.full_name = UserCreate.full_name user,
                        User.is_active = Some (UserCreate.is_active user),
                        created_at = now, updated_at = None\<rparr>
         in case constraint_violation (users db) db_user of
              Some v \<Rightarrow> (db\<lparr>id_seq := id_seq db + 1\<rparr>, Inl (IntegrityError v))
            | None \<Rightarrow>
                (\<lparr>users = users db @ [db_user], id_seq = id_seq db + 1\<rparr>, Inr db_user)))"

text \<open>
  \<^verbatim>\<open>crud.update_user\<close>: fetch the row, \<^verbatim>\<open>setattr\<close> every dumped field, \<^verbatim>\<open>commit\<close>,
  \<^verbatim>\<open>refresh\<close>. The function writes no SQL of its own: what reaches the store is what the
  session's flush makes of the assignments. The flush compares every assigned attribute
  with the value that was loaded and emits an UPDATE for the columns that differ; in the
  words of the SQLAlchemy documentation of \<^verbatim>\<open>Session.dirty\<close>, "at flush time, the value of
  each attribute is compared to its previously saved value, and if there's no net
  change, no SQL operation will occur". \<^verbatim>\<open>onupdate=func.now()\<close> on \<^verbatim>\<open>updated_at\<close> is a
  default for UPDATE statements, so the column is stamped exactly when an UPDATE is
  emitted. A refused UPDATE raises \<^verbatim>\<open>IntegrityError\<close> out of \<^verbatim>\<open>commit\<close> and leaves the
  table as it was. An UPDATE that goes through leaves the new version of the row behind
  the other rows.
\<close>

definition crud_update_user ::
  "Database \<Rightarrow> datetime \<Rightarrow> int \<Rightarrow> UserUpdate \<Rightarrow> Database \<times> (exn + User option)" where
  "crud_update_user db now user_id user_update =
     (case crud_get_user db user_id of
        None \<Rightarrow> (db, Inr None)
      | Some db_user \<Rightarrow>
          (let update_data = model_dump user_update;
               assigned = foldl setattr db_user update_data
           in if assigned = db_user then (db, Inr (Some db_user))
              else
                (let row = assigned\<lparr>updated_at := Some now\<rparr>
                 in case constraint_violation
                           (filter (\<lambda>u. id' u \<noteq> user_id) (users db)) row of
                      Some v \<Rightarrow> (db, Inl (IntegrityError v))
                    | None \<Rightarrow>
                        (db\<lparr>users := filter (\<lambda>u. id' u \<noteq> user_id) (users db) @ [row]\<rparr>,
                         Inr (Some row)))))"

text \<open>\<^verbatim>\<open>crud.delete_user\<close>: \<^verbatim>\<open>False\<close> when the row is missing, else DELETE by key and commit.\<close>

definition crud_delete_user :: "Database \<Rightarrow> int \<Rightarrow> Database \<times> bool" where
  "crud_delete_user db user_id =
     (case crud_get_user db user_id of
        None \<Rightarrow> (db, False)
      | Some db_user \<Rightarrow> (db\<lparr>users := filter (\<lambda>u. id' u \<noteq> user_id) (users db)\<rparr>, True))"

section \<open>main.py\<close>

text \<open>\<^verbatim>\<open>str(int)\<close>, as the f-strings of the handlers format a user id.\<close>

definition digit_char :: "nat \<Rightarrow> char" where
  "digit_char d =
     (if d = 0 then CHR ''0'' else if d = 1 then CHR ''1'' else if d = 2 then CHR ''2''
      else if d = 3 then CHR ''3'' else if d = 4 then CHR ''4'' else if d = 5 then CHR ''5''
      else if d = 6 then CHR ''6'' else if d = 7 then CHR ''7'' else if d = 8 then CHR ''8''
      else CHR ''9'')"

fun str_nat :: "nat \<Rightarrow> string" where
  "str_nat n = (if n < 10 then [digit_char n] else str_nat (n div 10) @ [digit_char (n mod 10)])"

declare str_nat.simps [simp del]

definition str_int :: "int \<Rightarrow> string" where
  "str_int i = (if i < 0 then CHR ''-'' # str_nat (nat (- i)) else str_nat (nat i))"

text \<open>The \<^verbatim>\<open>detail\<close> strings of the handlers.\<close>

definition quoted :: "string \<Rightarrow> string" where
  "quoted s = [CHR 0x27] @ s @ [CHR 0x27]"

definition detail_email_registered :: "string \<Rightarrow> string" where
  "detail_email_registered e = ''Email '' @ quoted e @ '' already registered''"

definition detail_username_taken :: "string \<Rightarrow> string" where
  "detail_username_taken n = ''Username '' @ quoted n @ '' already taken''"

definition detail_not_found :: "int \<Rightarrow> string" where
  "detail_not_found user_id = ''User with ID '' @ str_int user_id @ '' not found''"

definition detail_create_duplicate :: string where
  "detail_create_duplicate = ''User with this email or username already exists''"

definition detail_update_duplicate :: string where
  "detail_update_duplicate = ''Email or username already exists''"

definition detail_bad_id :: string where
  "detail_bad_id = ''User ID must be a positive integer''"

definition detail_empty_update :: string where
  "detail_empty_update = ''At least one field must be provided for update''"

definition detail_bad_skip :: string where
  "detail_bad_skip = ''Parameter '' @ quoted ''skip'' @ '' must be >= 0''"

definition detail_bad_limit :: string where
  "detail_bad_limit = ''Parameter '' @ quoted ''limit'' @ '' must be between 1 and 1000''"

text \<open>
  A handler talks to the store several times, and other requests may commit in between.
  The handlers below therefore take the table as each of their store accesses finds
  it: \<open>db\<^sub>1\<close> at the lookup by email, \<open>db\<^sub>2\<close> at the lookup by username, \<open>db\<close> at the write.
  They return the table after the write (\<open>db\<close> itself when nothing was written, also
  after the \<^verbatim>\<open>rollback\<close> of a refused write) and the response. A request that runs alone
  sees the same table three times.
\<close>

definition main_create_user_racing ::
  "Database \<Rightarrow> Database \<Rightarrow> Database \<Rightarrow> datetime \<Rightarrow> UserCreate \<Rightarrow> Database \<times> (exn + User)" where
  "main_create_user_racing db\<^sub>1 db\<^sub>2 db now user =
     (if crud_get_user_by_email db\<^sub>1 (UserCreate.email user) \<noteq> None
      then (db, Inl (HTTPException 400 (detail_email_registered (UserCreate.email user))))
      else if crud_get_user_by_username db\<^sub>2 (UserCreate.username user) \<noteq> None
      then (db, Inl (HTTPException 400 (detail_username_taken (UserCreate.username user))))
      else
        (case crud_create_user db now user of
           (db', Inl (IntegrityError v)) \<Rightarrow>
             (db', Inl (HTTPException 400 detail_create_duplicate))
         | (db', r) \<Rightarrow> (db', r)))"


definition main_read_users :: "Database \<Rightarrow> int \<Rightarrow> int \<Rightarrow> exn + User list" where
  "main_read_users db skip limit =
     (if skip < 0 then Inl (HTTPException 400 detail_bad_skip)
      else if limit < 1 \<or> limit > 1000 then Inl (HTTPException 400 detail_bad_limit)
      else crud_get_users db skip limit)"

definition main_read_user :: "Database \<Rightarrow> int \<Rightarrow> exn + User" where
  "main_read_user db user_id =
     (if user_id < 1 then Inl (HTTPException 400 detail_bad_id)
      else case crud_get_user db user_id of
             None \<Rightarrow> Inl (HTTPException 404 (detail_not_found user_id))
           | Some db_user \<Rightarrow> Inr db_user)"

text \<open>The two uniqueness checks of \<^verbatim>\<open>update_user\<close>; \<open>Some\<close> is the exception raised.\<close>

definition update_email_check :: "Database \<Rightarrow> int \<Rightarrow> UserUpdate \<Rightarrow> exn option" where
  "update_email_check db user_id user =
     (if truthy (attr (UserUpdate.email user)) then
        (case attr (UserUpdate.email user) of
           None \<Rightarrow> None
         | Some e \<Rightarrow>
             (case crud_get_user_by_email db e of
                None \<Rightarrow> None
              | Some existing_user \<Rightarrow>
                  if id' existing_user \<noteq> user_id
                  then Some (HTTPException 400 (detail_email_registered e)) else None))
      else None)"

definition update_username_check :: "Database \<Rightarrow> int \<Rightarrow> UserUpdate \<Rightarrow> exn option" where
  "update_username_check db user_id user =
     (if truthy (attr (UserUpdate.username user)) then
        (case attr (UserUpdate.username user) of
           None \<Rightarrow> None
         | Some n \<Rightarrow>
             (case crud_get_user_by_username db n of
                None \<Rightarrow> None
              | Some existing_user \<Rightarrow>
                  if id' existing_user \<noteq> user_id
                  then Some (HTTPException 400 (detail_username_taken n)) else None))
      else None)"

definition main_update_user_racing ::
  "Database \<Rightarrow> Database \<Rightarrow> Database \<Rightarrow> datetime \<Rightarrow> int \<Rightarrow> UserUpdate \<Rightarrow> Database \<times> (exn + User)" where
  "main_update_user_racing db\<^sub>1 db\<^sub>2 db now user_id user =
     (if user_id < 1 then (db, Inl (HTTPException 400 detail_bad_id))
      else if model_dump user = [] then (db, Inl (HTTPException 400 detail_empty_update))
      else
        (case update_email_check db\<^sub>1 user_id user of
           Some e \<Rightarrow> (db, Inl e)
         | None \<Rightarrow>
             (case update_username_check db\<^sub>2 user_id user of
                Some e \<Rightarrow> (db, Inl e)
              | None \<Rightarrow>
                  (case crud_update_user db now user_id user of
                     (db', Inl (IntegrityError v)) \<Rightarrow>
                       (db', Inl (HTTPException 400 detail_update_duplicate))
                   | (db', Inl e) \<Rightarrow> (db', Inl e)
                   | (db', Inr None) \<Rightarrow> (db', Inl (HTTPException 404 (detail_not_found user_id)))
                   | (db', Inr (Some db_user)) \<Rightarrow> (db', Inr db_user)))))"

definition main_update_user ::
  "Database \<Rightarrow> datetime \<Rightarrow> int \<Rightarrow> UserUpdate \<Rightarrow> Database \<times> (exn + User)" where
  "main_update_user db = main_update_user_racing db db db"

definition main_delete_user :: "Database \<Rightarrow> int \<Rightarrow> Database \<times> (exn + unit)" where
  "main_delete_user db user_id =
     (if user_id < 1 then (db, Inl (HTTPException 400 detail_bad_id))
      else case crud_delete_user db user_id of
             (db', success) \<Rightarrow>
               if \<not> success then (db', Inl (HTTPException 404 (detail_not_found user_id)))
               else (db', Inr ()))"

section \<open>The invariant of the table\<close>

text \<open>
  What the primary key, the sequence and the column constraints guarantee of every
  committed table.
\<close>

definition store_ok :: "Database \<Rightarrow> bool" where
  "store_ok db \<longleftrightarrow>
     distinct (map id' (users db)) \<and>
     distinct (map User.email (users db)) \<and>
     distinct (map User.username (users db)) \<and>
     (\<forall>u \<in> set (users db).
        1 \<le> id' u \<and> id' u \<le> id_seq db \<and>
        User.email u \<noteq> None \<and> User.username u \<noteq> None \<and> User.is_active u \<noteq> None) \<and>
     0 \<le> id_seq db"

definition empty_db :: Database where
  "empty_db = \<lparr>users = [], id_seq = 0\<rparr>"

section \<open>Requests that race\<close>

text \<open>
  A request is a create or an update. Requests that run at the same time are served
  one write after the other, since the store takes one write at a time, but the two
  lookups of a request may have seen any earlier state of the table: \<open>race past db\<close>
  serves the calls in the order of their writes, \<open>past\<close> being the states the table
  went through before \<open>db\<close>, and every call says with two numbers how many writes each
  of its lookups came after (a number beyond the present means the present).
\<close>

datatype request = Create UserCreate | Update int UserUpdate

fun serve ::
  "Database \<Rightarrow> Database \<Rightarrow> Database \<Rightarrow> datetime \<Rightarrow> request \<Rightarrow> Database \<times> (exn + User)" where
  "serve db\<^sub>1 db\<^sub>2 db now (Create user) = main_create_user_racing db\<^sub>1 db\<^sub>2 db now user"
| "serve db\<^sub>1 db\<^sub>2 db now (Update user_id user) =
     main_update_user_racing db\<^sub>1 db\<^sub>2 db now user_id user"

fun race ::
  "Database list \<Rightarrow> Database \<Rightarrow> (datetime \<times> nat \<times> nat \<times> request) list \<Rightarrow>
   Database \<times> (exn + User) list" where
  "race past db [] = (db, [])"
| "race past db ((now, k\<^sub>1, k\<^sub>2, req) # rest) =
     (let seen = past @ [db] in
      case serve (seen ! min k\<^sub>1 (length past)) (seen ! min k\<^sub>2 (length past)) db now req of
        (db', answer) \<Rightarrow>
          (case race seen db' rest of (db'', answers) \<Rightarrow> (db'', answer # answers)))"

text \<open>The value the requests race for, who asks for it, and which row has it.\<close>

datatype contested = Email string | Username string

fun wants :: "contested \<Rightarrow> request \<Rightarrow> bool" where
  "wants (Email e) (Create user) \<longleftrightarrow> UserCreate.email user = e"
| "wants (Email e) (Update user_id user) \<longleftrightarrow> UserUpdate.email user = Some (Some e)"
| "wants (Username n) (Create user) \<longleftrightarrow> UserCreate.username user = n"
| "wants (Username n) (Update user_id user) \<longleftrightarrow> UserUpdate.username user = Some (Some n)"

fun holds :: "contested \<Rightarrow> User \<Rightarrow> bool" where
  "holds (Email e) row \<longleftrightarrow> User.email row = Some e"
| "holds (Username n) row \<longleftrightarrow> User.username row = Some n"

fun update_ids :: "request list \<Rightarrow> int list" where
  "update_ids [] = []"
| "update_ids (Create user # reqs) = update_ids reqs"
| "update_ids (Update user_id user # reqs) = user_id # update_ids reqs"

text \<open>
  The requests of a list of calls, whether a call is accepted when it runs alone on a
  table, and the rows that a list of answers returned with success.
\<close>

definition requests :: "(datetime \<times> nat \<times> nat \<times> request) list \<Rightarrow> request list" where
  "requests calls = map (\<lambda>(now, k\<^sub>1, k\<^sub>2, req). req) calls"

definition wins_alone :: "Database \<Rightarrow> datetime \<times> nat \<times> nat \<times> request \<Rightarrow> bool" where
  "wins_alone db call = (case call of (now, k\<^sub>1, k\<^sub>2, req) \<Rightarrow> \<not> isl (snd (serve db db db now req)))"

fun accepted :: "(exn + User) list \<Rightarrow> User list" where
  "accepted [] = []"
| "accepted (Inl e # answers) = accepted answers"
| "accepted (Inr row # answers) = row # accepted answers"

text \<open>The four answers of the handlers that report a conflict, letter by letter.\<close>

definition conflict :: "exn + User \<Rightarrow> bool" where
  "conflict answer \<longleftrightarrow>
     (\<exists>v. answer = Inl (HTTPException 400
            (''Email '' @ [CHR 0x27] @ v @ [CHR 0x27] @ '' already registered''))) \<or>
     (\<exists>v. answer = Inl (HTTPException 400
            (''Username '' @ [CHR 0x27] @ v @ [CHR 0x27] @ '' already taken''))) \<or>
     answer = Inl (HTTPException 400 ''User with this email or username already exists'') \<or>
     answer = Inl (HTTPException 400 ''Email or username already exists'')"

section \<open>Reading a message\<close>

text \<open>
  What a caller can assert on a \<^verbatim>\<open>detail\<close>: that it mentions a field name, as the tests
  do with \<^verbatim>\<open>"email" in error["detail"].lower()\<close>, or the decimal form of a user id.
\<close>

definition names_field :: "string \<Rightarrow> string \<Rightarrow> bool" where
  "names_field field detail \<longleftrightarrow> sublist field (map to_lower detail)"

definition names_id :: "int \<Rightarrow> string \<Rightarrow> bool" where
  "names_id user_id detail \<longleftrightarrow> sublist (str_int user_id) detail"

text \<open>Reading a decimal numeral back, to say what the digits of a message stand for.\<close>

definition digit_value :: "char \<Rightarrow> nat" where
  "digit_value c = length (takeWhile (\<lambda>d. d \<noteq> c) ''0123456789'') mod 10"

definition decimal :: "string \<Rightarrow> nat" where
  "decimal s = foldl (\<lambda>a c. 10 * a + digit_value c) 0 s"

section \<open>Sample data\<close>

definition alice_row :: User where
  "alice_row = \<lparr>id' = 1, User.email = Some ''a@x.com'', User.username = Some ''abc'',
                 User.full_name = None, User.is_active = Some True,
                 created_at = 10, updated_at = None\<rparr>"

definition bob_row :: User where
  "bob_row = \<lparr>id' = 2, User.email = Some ''b@x.com'', User.username = Some ''bob'',
               User.full_name = Some ''Bob'', User.is_active = Some True,
               created_at = 20, updated_at = None\<rparr>"

definition sample_db :: Database where
  "sample_db = \<lparr>users = [alice_row, bob_row], id_seq = 3\<rparr>"

definition no_fields :: UserUpdate where
  "no_fields = \<lparr>UserUpdate.email = None, UserUpdate.username = None,
                 UserUpdate.full_name = None, UserUpdate.is_active = None\<rparr>"

definition carol :: UserCreate where
  "carol = \<lparr>UserCreate.email = ''a@x.com'', UserCreate.username = ''carol'',
             UserCreate.full_name = None, UserCreate.is_active = True\<rparr>"

definition deactivate :: UserUpdate where
  "deactivate = no_fields\<lparr>UserUpdate.is_active := Some (Some False)\<rparr>"

definition rename_alice :: UserUpdate where
  "rename_alice = no_fields\<lparr>UserUpdate.full_name := Some (Some ''X'')\<rparr>"

definition rename_bob :: UserUpdate where
  "rename_bob = no_fields\<lparr>UserUpdate.full_name := Some (Some ''Bob'')\<rparr>"



definition null_email :: UserUpdate where
  "null_email = no_fields\<lparr>UserUpdate.email := Some None\<rparr>"

definition null_is_active :: UserUpdate where
  "null_is_active = no_fields\<lparr>UserUpdate.is_active := Some None\<rparr>"




definition new_email :: UserUpdate where
  "new_email = no_fields\<lparr>UserUpdate.email := Some (Some ''n@x.com'')\<rparr>"

definition erin :: UserCreate where
  "erin = \<lparr>UserCreate.email = ''n@x.com'', UserCreate.username = ''erin'',
            UserCreate.full_name = None, UserCreate.is_active = True\<rparr>"

definition frank :: UserCreate where
  "frank = \<lparr>UserCreate.email = ''n@x.com'', UserCreate.username = ''frank'',
             UserCreate.full_name = None, UserCreate.is_active = True\<rparr>"

definition erin_row :: User where
  "erin_row = \<lparr>id' = 4, User.email = Some ''n@x.com'', User.username = Some ''erin'',
                User.full_name = None, User.is_active = Some True,
                created_at = 30, updated_at = None\<rparr>"

definition abc_racer :: UserCreate where
  "abc_racer = \<lparr>UserCreate.email = ''n@x.com'', UserCreate.username = ''abc'',
                 UserCreate.full_name = None, UserCreate.is_active = True\<rparr>"

definition bob_racer :: UserCreate where
  "bob_racer = \<lparr>UserCreate.email = ''n@x.com'', UserCreate.username = ''bob'',
                 UserCreate.full_name = None, UserCreate.is_active = True\<rparr>"

definition alice_moved :: User where
  "alice_moved = alice_row\<lparr>User.email := Some ''n@x.com'', updated_at := Some 30\<rparr>"

text \<open>
  Three requests for the email \<^verbatim>\<open>n@x.com\<close>, two requests that move the same record to
  it, and two requests for it whose usernames are taken.
\<close>

definition three_for_one_email :: "(datetime \<times> nat \<times> nat \<times> request) list" where
  "three_for_one_email =
     [(30, 0, 0, Create erin), (31, 0, 0, Create frank), (32, 0, 1, Update 2 new_email)]"

definition same_record_twice :: "(datetime \<times> nat \<times> nat \<times> request) list" where
  "same_record_twice = [(30, 0, 0, Update 1 new_email), (31, 0, 0, Update 1 new_email)]"

definition taken_usernames :: "(datetime \<times> nat \<times> nat \<times> request) list" where
  "taken_usernames = [(30, 0, 0, Create abc_racer), (31, 0, 0, Create bob_racer)]"



section \<open>Lookups\<close>

lemma crud_get_user_SomeD:
  "crud_get_user db user_id = Some u \<Longrightarrow> u \<in> set (users db) \<and> id' u = user_id"
  by (auto simp: crud_get_user_def find_Some_iff)

lemma crud_get_user_None_iff:
  "crud_get_user db user_id = None \<longleftrightarrow> user_id \<notin> id' ` set (users db)"
  by (auto simp: crud_get_user_def find_None_iff)

lemma crud_get_user_after_delete:
  "crud_get_user (db\<lparr>users := filter (\<lambda>r. id' r \<noteq> user_id) (users db)\<rparr>) user_id = None"
  by (simp add: crud_get_user_def find_None_iff)

lemma store_ok_id_pos: "store_ok db \<Longrightarrow> u \<in> set (users db) \<Longrightarrow> 1 \<le> id' u"
  by (simp add: store_ok_def)

lemma store_ok_sample_db: "store_ok sample_db"
  by (auto simp: store_ok_def sample_db_def alice_row_def bob_row_def)

lemma crud_get_user_by_email_None_iff:
  "crud_get_user_by_email db e = None \<longleftrightarrow> Some e \<notin> User.email ` set (users db)"
  by (auto simp: crud_get_user_by_email_def find_None_iff image_iff)

lemma crud_get_user_by_username_None_iff:
  "crud_get_user_by_username db n = None \<longleftrightarrow> Some n \<notin> User.username ` set (users db)"
  by (auto simp: crud_get_user_by_username_def find_None_iff image_iff)

text \<open>What \<^verbatim>\<open>crud.create_user\<close> returns, in terms of the rows of the table.\<close>

lemma crud_create_user_cases:
  "crud_create_user db now user =
     (let row = \<lparr>id' = id_seq db + 1,
                 User.email = Some (UserCreate.email user),
                 User.username = Some (UserCreate.username user),
                 User.full_name = UserCreate.full_name user,
                 User.is_active = Some (UserCreate.is_active user),
                 created_at = now, updated_at = None\<rparr>
      in if 2147483647 \<le> id_seq db then (db, Inl DataError)
         else if Some (UserCreate.email user) \<in> User.email ` set (users db)
         then (db\<lparr>id_seq := id_seq db + 1\<rparr>, Inl (IntegrityError (UniqueViolation ''email'')))
         else if Some (UserCreate.username user) \<in> User.username ` set (users db)
         then (db\<lparr>id_seq := id_seq db + 1\<rparr>, Inl (IntegrityError (UniqueViolation ''username'')))
         else (\<lparr>users = users db @ [row], id_seq = id_seq db + 1\<rparr>, Inr row))"
  by (simp add: crud_create_user_def constraint_violation_def Let_def)

text \<open>What the create handler returns, in terms of the rows its three store accesses find.\<close>

lemma main_create_user_racing_cases:
  "main_create_user_racing db\<^sub>1 db\<^sub>2 db now user =
     (let row = \<lparr>id' = id_seq db + 1,
                 User.email = Some (UserCreate.email user),
                 User.username = Some (UserCreate.username user),
                 User.full_name = UserCreate.full_name user,
                 User.is_active = Some (UserCreate.is_active user),
                 created_at = now, updated_at = None\<rparr>
      in if Some (UserCreate.email user) \<in> User.email ` set (users db\<^sub>1)
         then (db, Inl (HTTPException 400 (detail_email_registered (UserCreate.email user))))
         else if Some (UserCreate.username user) \<in> User.username ` set (users db\<^sub>2)
         then (db, Inl (HTTPException 400 (detail_username_taken (UserCreate.username user))))
         else if 2147483647 \<le> id_seq db then (db, Inl DataError)
         else if Some (UserCreate.email user) \<in> User.email ` set (users db) \<or>
                 Some (UserCreate.username user) \<in> User.username ` set (users db)
         then (db\<lparr>id_seq := id_seq db + 1\<rparr>, Inl (HTTPException 400 detail_create_duplicate))
         else (\<lparr>users = users db @ [row], id_seq = id_seq db + 1\<rparr>, Inr row))"
  unfolding main_create_user_racing_def crud_get_user_by_email_None_iff
    crud_get_user_by_username_None_iff crud_create_user_cases
  by (simp add: Let_def)

section \<open>The update, case by case\<close>

lemma foldl_setattr_model_dump:
  "foldl setattr u (model_dump p) =
     u\<lparr>User.email := (case UserUpdate.email p of None \<Rightarrow> User.email u | Some v \<Rightarrow> v),
       User.username := (case UserUpdate.username p of None \<Rightarrow> User.username u | Some v \<Rightarrow> v),
       User.full_name := (case UserUpdate.full_name p of None \<Rightarrow> User.full_name u | Some v \<Rightarrow> v),
       User.is_active := (case UserUpdate.is_active p of None \<Rightarrow> User.is_active u | Some v \<Rightarrow> v)\<rparr>"
  by (cases "UserUpdate.email p"; cases "UserUpdate.username p";
      cases "UserUpdate.full_name p"; cases "UserUpdate.is_active p")
    (simp_all add: model_dump_def)

lemma update_email_check_cases:
  "update_email_check db user_id user = None \<or>
   (\<exists>e. update_email_check db user_id user = Some (HTTPException 400 (detail_email_registered e)) \<and>
        attr (UserUpdate.email user) = Some e \<and>
        (\<exists>r \<in> set (users db). User.email r = Some e \<and> id' r \<noteq> user_id))"
  by (auto simp: update_email_check_def crud_get_user_by_email_def find_Some_iff
      split: option.splits)

lemma update_username_check_cases:
  "update_username_check db user_id user = None \<or>
   (\<exists>n. update_username_check db user_id user = Some (HTTPException 400 (detail_username_taken n)) \<and>
        attr (UserUpdate.username user) = Some n \<and>
        (\<exists>r \<in> set (users db). User.username r = Some n \<and> id' r \<noteq> user_id))"
  by (auto simp: update_username_check_def crud_get_user_by_username_def find_Some_iff
      split: option.splits)

lemma crud_update_user_cases:
  "(crud_get_user db user_id = None \<and> crud_update_user db now user_id user = (db, Inr None)) \<or>
   (\<exists>u. crud_get_user db user_id = Some u \<and> foldl setattr u (model_dump user) = u \<and>
        crud_update_user db now user_id user = (db, Inr (Some u))) \<or>
   (\<exists>u v. crud_get_user db user_id = Some u \<and> foldl setattr u (model_dump user) \<noteq> u \<and>
        constraint_violation (filter (\<lambda>r. id' r \<noteq> user_id) (users db))
          ((foldl setattr u (model_dump user))\<lparr>updated_at := Some now\<rparr>) = Some v \<and>
        crud_update_user db now user_id user = (db, Inl (IntegrityError v))) \<or>
   (\<exists>u. crud_get_user db user_id = Some u \<and> foldl setattr u (model_dump user) \<noteq> u \<and>
        constraint_violation (filter (\<lambda>r. id' r \<noteq> user_id) (users db))
          ((foldl setattr u (model_dump user))\<lparr>updated_at := Some now\<rparr>) = None \<and>
        crud_update_user db now user_id user =
          (db\<lparr>users := filter (\<lambda>r. id' r \<noteq> user_id) (users db) @
                          [(foldl setattr u (model_dump user))\<lparr>updated_at := Some now\<rparr>]\<rparr>,
           Inr (Some ((foldl setattr u (model_dump user))\<lparr>updated_at := Some now\<rparr>))))"
  by (cases "crud_get_user db user_id")
    (auto simp: crud_update_user_def Let_def split: option.splits)

lemma main_update_user_racing_cases:
  "(user_id < 1 \<and>
      main_update_user_racing db\<^sub>1 db\<^sub>2 db now user_id user = (db, Inl (HTTPException 400 detail_bad_id))) \<or>
   (model_dump user = [] \<and>
      main_update_user_racing db\<^sub>1 db\<^sub>2 db now user_id user =
        (db, Inl (HTTPException 400 detail_empty_update))) \<or>
   (\<exists>e. attr (UserUpdate.email user) = Some e \<and>
        (\<exists>r \<in> set (users db\<^sub>1). User.email r = Some e \<and> id' r \<noteq> user_id) \<and>
        main_update_user_racing db\<^sub>1 db\<^sub>2 db now user_id user =
          (db, Inl (HTTPException 400 (detail_email_registered e)))) \<or>
   (\<exists>n. attr (UserUpdate.username user) = Some n \<and>
        (\<exists>r \<in> set (users db\<^sub>2). User.username r = Some n \<and> id' r \<noteq> user_id) \<and>
        main_update_user_racing db\<^sub>1 db\<^sub>2 db now user_id user =
          (db, Inl (HTTPException 400 (detail_username_taken n)))) \<or>
   (crud_get_user db user_id = None \<and>
      main_update_user_racing db\<^sub>1 db\<^sub>2 db now user_id user =
        (db, Inl (HTTPException 404 (detail_not_found user_id)))) \<or>
   (\<exists>u. crud_get_user db user_id = Some u \<and> foldl setattr u (model_dump user) = u \<and>
        main_update_user_racing db\<^sub>1 db\<^sub>2 db now user_id user = (db, Inr u)) \<or>
   (\<exists>u v. crud_get_user db user_id = Some u \<and> foldl setattr u (model_dump user) \<noteq> u \<and>
        constraint_violation (filter (\<lambda>r. id' r \<noteq> user_id) (users db))
          ((foldl setattr u (model_dump user))\<lparr>updated_at := Some now\<rparr>) = Some v \<and>
        main_update_user_racing db\<^sub>1 db\<^sub>2 db now user_id user =
          (db, Inl (HTTPException 400 detail_update_duplicate))) \<or>
   (\<exists>u. crud_get_user db user_id = Some u \<and> foldl setattr u (model_dump user) \<noteq> u \<and>
        constraint_violation (filter (\<lambda>r. id' r \<noteq> user_id) (users db))
          ((foldl setattr u (model_dump user))\<lparr>updated_at := Some now\<rparr>) = None \<and>
        main_update_user_racing db\<^sub>1 db\<^sub>2 db now user_id user =
          (db\<lparr>users := filter (\<lambda>r. id' r \<noteq> user_id) (users db) @
                          [(foldl setattr u (model_dump user))\<lparr>updated_at := Some now\<rparr>]\<rparr>,
           Inr ((foldl setattr u (model_dump user))\<lparr>updated_at := Some now\<rparr>)))"
proof (cases "user_id < 1 \<or> model_dump user = []")
  case True
  then show ?thesis by (auto simp: main_update_user_racing_def)
next
  case guards: False
  show ?thesis
  proof (cases "update_email_check db\<^sub>1 user_id user")
    case (Some x)
    with guards update_email_check_cases [of db\<^sub>1 user_id user] show ?thesis
      by (auto simp: main_update_user_racing_def)
  next
    case e: None
    show ?thesis
    proof (cases "update_username_check db\<^sub>2 user_id user")
      case (Some x)
      with guards e update_username_check_cases [of db\<^sub>2 user_id user] show ?thesis
        by (auto simp: main_update_user_racing_def)
    next
      case n: None
      have "main_update_user_racing db\<^sub>1 db\<^sub>2 db now user_id user =
        (case crud_update_user db now user_id user of
           (db', Inl (IntegrityError v)) \<Rightarrow> (db', Inl (HTTPException 400 detail_update_duplicate))
         | (db', Inl e) \<Rightarrow> (db', Inl e)
         | (db', Inr None) \<Rightarrow> (db', Inl (HTTPException 404 (detail_not_found user_id)))
         | (db', Inr (Some db_user)) \<Rightarrow> (db', Inr db_user))"
        using guards e n by (simp add: main_update_user_racing_def)
      with crud_update_user_cases [of db user_id now user] show ?thesis
        by (elim disjE exE conjE) simp_all
    qed
  qed
qed

section \<open>Messages\<close>

text \<open>The messages of the handlers, letter by letter.\<close>

lemma detail_literals:
  "detail_email_registered e = ''Email '' @ [CHR 0x27] @ e @ [CHR 0x27] @ '' already registered''"
  "detail_username_taken n = ''Username '' @ [CHR 0x27] @ n @ [CHR 0x27] @ '' already taken''"
  "detail_create_duplicate = ''User with this email or username already exists''"
  "detail_update_duplicate = ''Email or username already exists''"
  by (simp_all add: detail_email_registered_def detail_username_taken_def quoted_def
      detail_create_duplicate_def detail_update_duplicate_def)

lemma names_field_literals:
  "names_field ''email'' (''Email '' @ [CHR 0x27] @ e @ [CHR 0x27] @ '' already registered'')"
  "names_field ''username'' (''Username '' @ [CHR 0x27] @ n @ [CHR 0x27] @ '' already taken'')"
  "names_field ''email'' ''User with this email or username already exists''"
  "names_field ''username'' ''User with this email or username already exists''"
  "names_field ''email'' ''Email or username already exists''"
  "names_field ''username'' ''Email or username already exists''"
  by (simp_all add: names_field_def to_lower_def sublist_Cons_right)

lemma quotes_value:
  "sublist e (''Email '' @ [CHR 0x27] @ e @ [CHR 0x27] @ '' already registered'')"
  "sublist n (''Username '' @ [CHR 0x27] @ n @ [CHR 0x27] @ '' already taken'')"
  by (metis sublist_appendI append.assoc)+

section \<open>Creating\<close>

text \<open>
  C1. The create handler first looks the email up: when a row holds it, the answer is
  400 with the message \<^verbatim>\<open>Email '...' already registered\<close>, which names the field and
  quotes the email, whatever else holds. Otherwise it looks the username up: when a row
  holds it, the answer is 400 with \<^verbatim>\<open>Username '...' already taken\<close>, which names the
  field and quotes the username. Otherwise it inserts, and the insert decides on the
  table as it is at that moment: when a row there holds the email or the username,
  although both lookups found none, the store refuses the row for the unique constraint
  and the answer is 400 with the generic message
  \<^verbatim>\<open>User with this email or username already exists\<close>, no row being added; when no row
  holds either, the new row is added and returned. (When the sequence has no key left,
  the insert fails before any constraint is looked at, with the error of the store.)
\<close>

theorem create_user_order:
  "(Some (UserCreate.email user) \<in> User.email ` set (users db\<^sub>1) \<longrightarrow>
      main_create_user_racing db\<^sub>1 db\<^sub>2 db now user =
        (db, Inl (HTTPException 400
           (''Email '' @ [CHR 0x27] @ UserCreate.email user @ [CHR 0x27] @
            '' already registered'')))) \<and>
   (Some (UserCreate.email user) \<notin> User.email ` set (users db\<^sub>1) \<and>
    Some (UserCreate.username user) \<in> User.username ` set (users db\<^sub>2) \<longrightarrow>
      main_create_user_racing db\<^sub>1 db\<^sub>2 db now user =
        (db, Inl (HTTPException 400
           (''Username '' @ [CHR 0x27] @ UserCreate.username user @ [CHR 0x27] @
            '' already taken'')))) \<and>
   (Some (UserCreate.email user) \<notin> User.email ` set (users db\<^sub>1) \<and>
    Some (UserCreate.username user) \<notin> User.username ` set (users db\<^sub>2) \<and>
    id_seq db < 2147483647 \<and>
    (Some (UserCreate.email user) \<in> User.email ` set (users db) \<or>
     Some (UserCreate.username user) \<in> User.username ` set (users db)) \<longrightarrow>
      (\<exists>column. crud_create_user db now user =
         (db\<lparr>id_seq := id_seq db + 1\<rparr>, Inl (IntegrityError (UniqueViolation column)))) \<and>
      main_create_user_racing db\<^sub>1 db\<^sub>2 db now user =
        (db\<lparr>id_seq := id_seq db + 1\<rparr>,
         Inl (HTTPException 400 ''User with this email or username already exists''))) \<and>
   (Some (UserCreate.email user) \<notin> User.email ` set (users db\<^sub>1) \<and>
    Some (UserCreate.username user) \<notin> User.username ` set (users db\<^sub>2) \<and>
    id_seq db < 2147483647 \<and>
    Some (UserCreate.email user) \<notin> User.email ` set (users db) \<and>
    Some (UserCreate.username user) \<notin> User.username ` set (users db) \<longrightarrow>
      (let row = \<lparr>id' = id_seq db + 1,
                  User.email = Some (UserCreate.email user),
                  User.username = Some (UserCreate.username user),
                  User.full_name = UserCreate.full_name user,
                  User.is_active = Some (UserCreate.is_active user),
                  created_at = now, updated_at = None\<rparr>
       in main_create_user_racing db\<^sub>1 db\<^sub>2 db now user =
            (\<lparr>users = users db @ [row], id_seq = id_seq db + 1\<rparr>, Inr row))) \<and>
   (Some (UserCreate.email user) \<notin> User.email ` set (users db\<^sub>1) \<and>
    Some (UserCreate.username user) \<notin> User.username ` set (users db\<^sub>2) \<and>
    2147483647 \<le> id_seq db \<longrightarrow>
      main_create_user_racing db\<^sub>1 db\<^sub>2 db now user = (db, Inl DataError)) \<and>
   names_field ''email''
     (''Email '' @ [CHR 0x27] @ UserCreate.email user @ [CHR 0x27] @ '' already registered'') \<and>
   sublist (UserCreate.email user)
     (''Email '' @ [CHR 0x27] @ UserCreate.email user @ [CHR 0x27] @ '' already registered'') \<and>
   names_field ''username''
     (''Username '' @ [CHR 0x27] @ UserCreate.username user @ [CHR 0x27] @ '' already taken'') \<and>
   sublist (UserCreate.username user)
     (''Username '' @ [CHR 0x27] @ UserCreate.username user @ [CHR 0x27] @ '' already taken'')"
proof -
  note run = main_create_user_racing_cases [of db\<^sub>1 db\<^sub>2 db now user, unfolded detail_literals]
  have refused: "\<exists>column. crud_create_user db now user =
      (db\<lparr>id_seq := id_seq db + 1\<rparr>, Inl (IntegrityError (UniqueViolation column)))"
    if "id_seq db < 2147483647"
      "Some (UserCreate.email user) \<in> User.email ` set (users db) \<or>
       Some (UserCreate.username user) \<in> User.username ` set (users db)"
    using that unfolding crud_create_user_cases by (auto simp: Let_def)
  show ?thesis
    using refused names_field_literals(1,2) quotes_value
    unfolding run by (simp add: Let_def)
qed

theorem create_user_order_witness:
  "main_create_user_racing empty_db empty_db sample_db 30 carol =
     (sample_db\<lparr>id_seq := 4\<rparr>,
      Inl (HTTPException 400 ''User with this email or username already exists'')) \<and>
   main_create_user_racing sample_db sample_db sample_db 30 carol =
     (sample_db, Inl (HTTPException 400 ''Email 'a@x.com' already registered''))"
proof -
  have facts: "UserCreate.email carol = ''a@x.com''" "UserCreate.username carol = ''carol''"
    "users empty_db = []" "users sample_db = [alice_row, bob_row]" "id_seq sample_db = 3"
    "User.email alice_row = Some ''a@x.com''" "User.username alice_row = Some ''abc''"
    "User.username bob_row = Some ''bob''" "User.email bob_row = Some ''b@x.com''"
    by (simp_all add: carol_def empty_db_def sample_db_def alice_row_def bob_row_def)
  from create_user_order [of carol empty_db empty_db sample_db 30]
    create_user_order [of carol sample_db sample_db sample_db 30]
  show ?thesis
    by (simp add: facts)
qed

section \<open>Listing\<close>

text \<open>
  What the list handler does with every pair of parameters: \<open>skip < 0\<close> or \<open>limit\<close>
  outside \<open>[1, 1000]\<close> is answered with status 400 and the message of the offending
  parameter, nothing being clamped; with \<open>0 \<le> skip < 2\<^sup>6\<^sup>3\<close> and \<open>limit\<close> in
  \<open>[1, 1000]\<close> the request succeeds with the rows that follow the first \<open>skip\<close> ones,
  at most \<open>limit\<close> of them, and with the empty list when \<open>skip\<close> is not below the number
  of stored rows; with \<open>skip \<ge> 2\<^sup>6\<^sup>3\<close> and \<open>limit\<close> in \<open>[1, 1000]\<close> the error of the
  store passes through the handler.
\<close>

lemma read_users_pagination:
  "(skip < 0 \<or> limit < 1 \<or> 1000 < limit \<longrightarrow>
      main_read_users db skip limit =
        Inl (HTTPException 400 (if skip < 0 then detail_bad_skip else detail_bad_limit))) \<and>
   (0 \<le> skip \<and> skip < 9223372036854775808 \<and> 1 \<le> limit \<and> limit \<le> 1000 \<longrightarrow>
      (\<exists>page. main_read_users db skip limit = Inr page \<and>
         page = take (nat limit) (drop (nat skip) (users db)) \<and>
         int (length page) \<le> limit \<and>
         (int (length (users db)) \<le> skip \<longrightarrow> page = []))) \<and>
   (9223372036854775808 \<le> skip \<and> 1 \<le> limit \<and> limit \<le> 1000 \<longrightarrow>
      main_read_users db skip limit = Inl DataError)"
  by (auto simp: main_read_users_def crud_get_users_def)

text \<open>
  C6. The claim fails on the code for a \<open>skip\<close> that the store cannot take as an
  OFFSET: \<open>skip = 2\<^sup>6\<^sup>3\<close> with \<open>limit = 100\<close> passes both checks of the handler
  (\<open>skip \<ge> 0\<close>, \<open>limit\<close> in \<open>[1, 1000]\<close>), and the answer is neither the empty list nor
  a 400 but the \<^verbatim>\<open>DataError\<close> of the store, which no handler catches. One below, the
  answer on the same table is the empty list.
\<close>

theorem read_users_huge_skip:
  "main_read_users sample_db 9223372036854775808 100 = Inl DataError \<and>
   main_read_users sample_db 9223372036854775807 100 = Inr []"
  by (simp add: main_read_users_def crud_get_users_def sample_db_def)

section \<open>Deleting\<close>

text \<open>
  C7. Deleting a stored user succeeds with no payload and removes the row and nothing
  else. On the table that results, reading the same id answers 404 and deleting it
  again answers 404 and leaves the table as it is.
\<close>

theorem delete_is_terminal:
  assumes "store_ok db" and "crud_get_user db user_id = Some u"
  shows "snd (main_delete_user db user_id) = Inr () \<and>
         users (fst (main_delete_user db user_id)) = filter (\<lambda>r. id' r \<noteq> user_id) (users db) \<and>
         main_read_user (fst (main_delete_user db user_id)) user_id =
           Inl (HTTPException 404 (detail_not_found user_id)) \<and>
         main_delete_user (fst (main_delete_user db user_id)) user_id =
           (fst (main_delete_user db user_id), Inl (HTTPException 404 (detail_not_found user_id)))"
proof -
  from assms have pos: "1 \<le> user_id"
    using crud_get_user_SomeD store_ok_id_pos by blast
  let ?db' = "db\<lparr>users := filter (\<lambda>r. id' r \<noteq> user_id) (users db)\<rparr>"
  have del: "main_delete_user db user_id = (?db', Inr ())"
    using pos assms(2) by (simp add: main_delete_user_def crud_delete_user_def)
  have gone: "crud_get_user ?db' user_id = None"
    by (rule crud_get_user_after_delete)
  have "main_read_user ?db' user_id = Inl (HTTPException 404 (detail_not_found user_id))"
    using pos gone by (simp add: main_read_user_def)
  moreover have "main_delete_user ?db' user_id =
      (?db', Inl (HTTPException 404 (detail_not_found user_id)))"
    using pos gone by (simp add: main_delete_user_def crud_delete_user_def)
  ultimately show ?thesis by (simp add: del)
qed

theorem delete_is_terminal_witness:
  "store_ok sample_db \<and> crud_get_user sample_db 1 = Some alice_row \<and>
   snd (main_delete_user sample_db 1) = Inr () \<and>
   users (fst (main_delete_user sample_db 1)) = [bob_row] \<and>
   main_read_user (fst (main_delete_user sample_db 1)) 1 =
     Inl (HTTPException 404 (detail_not_found 1))"
proof -
  have get: "crud_get_user sample_db 1 = Some alice_row"
    by (simp add: crud_get_user_def sample_db_def alice_row_def)
  have "filter (\<lambda>r. id' r \<noteq> 1) (users sample_db) = [bob_row]"
    by (simp add: sample_db_def alice_row_def bob_row_def)
  with delete_is_terminal [OF store_ok_sample_db get] store_ok_sample_db get
  show ?thesis by simp
qed

section \<open>The empty update\<close>

lemma model_dump_empty_iff:
  "model_dump user = [] \<longleftrightarrow>
     UserUpdate.email user = None \<and> UserUpdate.username user = None \<and>
     UserUpdate.full_name user = None \<and> UserUpdate.is_active user = None"
  by (auto simp: model_dump_def split: option.splits)

lemma detail_empty_update_distinct:
  "detail_bad_id \<noteq> detail_empty_update"
  "detail_email_registered e \<noteq> detail_empty_update"
  "detail_username_taken n \<noteq> detail_empty_update"
  "detail_update_duplicate \<noteq> detail_empty_update"
  by (simp_all add: detail_bad_id_def detail_empty_update_def detail_email_registered_def
      detail_username_taken_def detail_update_duplicate_def)

text \<open>
  C5. An update body with no field at all has an empty dump, and the handler answers it
  with status 400 (the message of the empty body, or that of the id when the id is
  below 1) whatever the three views of the table hold, and leaves the table as it is:
  no lookup and no write takes part in the answer. A body that supplies at least one of
  \<^verbatim>\<open>email\<close>, \<^verbatim>\<open>username\<close>, \<^verbatim>\<open>full_name\<close>, \<^verbatim>\<open>is_active\<close> has a non-empty dump, also
  when all it supplies is \<^verbatim>\<open>is_active = false\<close>, and is never answered with the message
  of the empty body.
\<close>

theorem empty_update_rejected:
  "(model_dump user = [] \<longleftrightarrow>
      UserUpdate.email user = None \<and> UserUpdate.username user = None \<and>
      UserUpdate.full_name user = None \<and> UserUpdate.is_active user = None) \<and>
   (model_dump user = [] \<longrightarrow>
      main_update_user_racing db\<^sub>1 db\<^sub>2 db now user_id user =
        (db, Inl (HTTPException 400
                    (if user_id < 1 then detail_bad_id else detail_empty_update)))) \<and>
   (model_dump user \<noteq> [] \<longrightarrow>
      snd (main_update_user_racing db\<^sub>1 db\<^sub>2 db now user_id user) \<noteq>
        Inl (HTTPException 400 detail_empty_update)) \<and>
   (UserUpdate.is_active user = Some (Some False) \<longrightarrow> model_dump user \<noteq> [])"
proof -
  have "snd (main_update_user_racing db\<^sub>1 db\<^sub>2 db now user_id user) \<noteq>
        Inl (HTTPException 400 detail_empty_update)" if "model_dump user \<noteq> []"
    using main_update_user_racing_cases [of user_id db\<^sub>1 db\<^sub>2 db now user] that
    by (elim disjE exE conjE) (simp_all add: detail_empty_update_distinct)
  moreover have "main_update_user_racing db\<^sub>1 db\<^sub>2 db now user_id user =
        (db, Inl (HTTPException 400
                    (if user_id < 1 then detail_bad_id else detail_empty_update)))"
    if "model_dump user = []"
    using that by (simp add: main_update_user_racing_def)
  ultimately show ?thesis
    by (simp add: model_dump_empty_iff)
qed

theorem empty_update_rejected_witness:
  "model_dump no_fields = [] \<and>
   main_update_user_racing sample_db sample_db sample_db 30 1 no_fields =
     (sample_db, Inl (HTTPException 400 detail_empty_update)) \<and>
   model_dump deactivate \<noteq> [] \<and>
   snd (main_update_user_racing sample_db sample_db sample_db 30 1 deactivate) \<noteq>
     Inl (HTTPException 400 detail_empty_update)"
  using empty_update_rejected [of no_fields sample_db sample_db sample_db 30 1]
    empty_update_rejected [of deactivate sample_db sample_db sample_db 30 1]
  by (simp add: no_fields_def deactivate_def)

section \<open>What a message names\<close>

text \<open>The decimal form of an id reads back as the id.\<close>

lemma digit_value_digit_char: "d < 10 \<Longrightarrow> digit_value (digit_char d) = d"
proof -
  assume "d < 10"
  then have "d \<in> {0, 1, 2, 3, 4, 5, 6, 7, 8, 9}"
    by auto
  then show ?thesis
    by (elim insertE) (simp_all add: digit_value_def digit_char_def)
qed

lemma decimal_snoc: "decimal (s @ [c]) = 10 * decimal s + digit_value c"
  by (simp add: decimal_def)

lemma decimal_str_nat: "decimal (str_nat n) = n"
proof (induction n rule: str_nat.induct)
  case (1 n)
  show ?case
  proof (cases "n < 10")
    case True
    then show ?thesis
      by (simp add: str_nat.simps [of n] decimal_def digit_value_digit_char)
  next
    case False
    with "1" have "decimal (str_nat (n div 10)) = n div 10"
      by simp
    with False show ?thesis
      by (simp add: str_nat.simps [of n] decimal_snoc digit_value_digit_char)
  qed
qed

lemma not_found_names_id:
  "detail_not_found user_id = ''User with ID '' @ str_int user_id @ '' not found''"
  "names_id user_id (detail_not_found user_id)"
  "0 \<le> user_id \<Longrightarrow> decimal (str_int user_id) = nat user_id"
proof -
  show "detail_not_found user_id = ''User with ID '' @ str_int user_id @ '' not found''"
    by (simp add: detail_not_found_def)
  show "names_id user_id (detail_not_found user_id)"
    unfolding names_id_def detail_not_found_def by (rule sublist_appendI)
  show "decimal (str_int user_id) = nat user_id" if "0 \<le> user_id"
    using that by (simp add: str_int_def decimal_str_nat)
qed

text \<open>
  A conflict that a lookup of the update handler raises names the field and quotes
  the value, and the message of a refused write names the column the store refused
  whenever that column is \<^verbatim>\<open>email\<close> or \<^verbatim>\<open>username\<close>.
\<close>

lemma update_conflict_names_column:
  "(update_email_check db\<^sub>1 user_id user = Some x \<longrightarrow>
      (\<exists>e d. x = HTTPException 400 d \<and>
         d = ''Email '' @ [CHR 0x27] @ e @ [CHR 0x27] @ '' already registered'' \<and>
         attr (UserUpdate.email user) = Some e \<and> names_field ''email'' d \<and> sublist e d)) \<and>
   (update_username_check db\<^sub>2 user_id user = Some x \<longrightarrow>
      (\<exists>n d. x = HTTPException 400 d \<and>
         d = ''Username '' @ [CHR 0x27] @ n @ [CHR 0x27] @ '' already taken'' \<and>
         attr (UserUpdate.username user) = Some n \<and> names_field ''username'' d \<and>
         sublist n d)) \<and>
   (user_id \<ge> 1 \<and> model_dump user \<noteq> [] \<and> update_email_check db\<^sub>1 user_id user = None \<and>
    update_username_check db\<^sub>2 user_id user = None \<and>
    crud_update_user db now user_id user = (db', Inl (IntegrityError v)) \<and>
    column \<in> {''email'', ''username''} \<and>
    (v = NotNullViolation column \<or> v = UniqueViolation column) \<longrightarrow>
      main_update_user_racing db\<^sub>1 db\<^sub>2 db now user_id user =
        (db', Inl (HTTPException 400 ''Email or username already exists'')) \<and>
      names_field column ''Email or username already exists'')"
proof -
  have e: "\<exists>e d. x = HTTPException 400 d \<and>
         d = ''Email '' @ [CHR 0x27] @ e @ [CHR 0x27] @ '' already registered'' \<and>
         attr (UserUpdate.email user) = Some e \<and> names_field ''email'' d \<and> sublist e d"
    if "update_email_check db\<^sub>1 user_id user = Some x"
    using update_email_check_cases [of db\<^sub>1 user_id user] that names_field_literals(1) quotes_value(1)
    unfolding detail_literals by auto
  have n: "\<exists>n d. x = HTTPException 400 d \<and>
         d = ''Username '' @ [CHR 0x27] @ n @ [CHR 0x27] @ '' already taken'' \<and>
         attr (UserUpdate.username user) = Some n \<and> names_field ''username'' d \<and>
         sublist n d"
    if "update_username_check db\<^sub>2 user_id user = Some x"
    using update_username_check_cases [of db\<^sub>2 user_id user] that names_field_literals(2)
      quotes_value(2)
    unfolding detail_literals by auto
  have w: "main_update_user_racing db\<^sub>1 db\<^sub>2 db now user_id user =
        (db', Inl (HTTPException 400 ''Email or username already exists'')) \<and>
      names_field column ''Email or username already exists''"
    if "user_id \<ge> 1" "model_dump user \<noteq> []" "update_email_check db\<^sub>1 user_id user = None"
      "update_username_check db\<^sub>2 user_id user = None"
      "crud_update_user db now user_id user = (db', Inl (IntegrityError v))"
      "column \<in> {''email'', ''username''}"
    using that names_field_literals(5,6)
    by (auto simp: main_update_user_racing_def detail_literals)
  from e n w show ?thesis by blast
qed

text \<open>
  C4. The claim fails on the code for an update body that sets \<^verbatim>\<open>is_active\<close> to
  \<^verbatim>\<open>null\<close>, here for the stored user 1: the store refuses the write for the NOT NULL
  constraint of \<^verbatim>\<open>is_active\<close>, and the handler answers with the conflict message
  \<^verbatim>\<open>Email or username already exists\<close>, which names neither the offending field nor
  the user id.
\<close>

theorem null_is_active_message:
  "crud_get_user sample_db 1 = Some alice_row \<and>
   crud_update_user sample_db 30 1 null_is_active =
     (sample_db, Inl (IntegrityError (NotNullViolation ''is_active''))) \<and>
   main_update_user sample_db 30 1 null_is_active =
     (sample_db, Inl (HTTPException 400 ''Email or username already exists'')) \<and>
   \<not> names_field ''is_active'' ''Email or username already exists'' \<and>
   \<not> names_id 1 ''Email or username already exists''"
  by code_simp

section \<open>Updating\<close>

lemma find_rewritten_row:
  "id' row = user_id \<Longrightarrow>
   find (\<lambda>r. id' r = user_id) (filter (\<lambda>r. id' r \<noteq> user_id) xs @ [row]) = Some row"
  by (induction xs) auto

lemma filter_rewritten_row:
  "id' row = user_id \<Longrightarrow>
   filter (\<lambda>r. id' r \<noteq> user_id) (filter (\<lambda>r. id' r \<noteq> user_id) xs @ [row]) =
   filter (\<lambda>r. id' r \<noteq> user_id) xs"
  by simp

lemma id_foldl_setattr [simp]: "id' (foldl setattr u (model_dump p)) = id' u"
  by (simp add: foldl_setattr_model_dump)

lemma unchanged_iff:
  "foldl setattr u (model_dump p) = u \<longleftrightarrow>
     (case UserUpdate.email p of None \<Rightarrow> True | Some v \<Rightarrow> v = User.email u) \<and>
     (case UserUpdate.username p of None \<Rightarrow> True | Some v \<Rightarrow> v = User.username u) \<and>
     (case UserUpdate.full_name p of None \<Rightarrow> True | Some v \<Rightarrow> v = User.full_name u) \<and>
     (case UserUpdate.is_active p of None \<Rightarrow> True | Some v \<Rightarrow> v = User.is_active u)"
  unfolding foldl_setattr_model_dump
  by (cases u) (auto split: option.splits)

lemma main_update_user_success_cases:
  assumes "crud_get_user db user_id = Some u"
    and "main_update_user_racing db\<^sub>1 db\<^sub>2 db now user_id user = (db', Inr u')"
  shows "(foldl setattr u (model_dump user) = u \<and> db' = db \<and> u' = u) \<or>
         (foldl setattr u (model_dump user) \<noteq> u \<and>
          u' = (foldl setattr u (model_dump user))\<lparr>updated_at := Some now\<rparr> \<and>
          db' = db\<lparr>users := filter (\<lambda>r. id' r \<noteq> user_id) (users db) @
                           [(foldl setattr u (model_dump user))\<lparr>updated_at := Some now\<rparr>]\<rparr>)"
  using main_update_user_racing_cases [of user_id db\<^sub>1 db\<^sub>2 db now user]
  unfolding assms
  by (elim disjE exE conjE) simp_all

text \<open>
  C3 (as amended). When an update of a stored user is accepted, the returned row has
  the id and \<^verbatim>\<open>created_at\<close> of the stored one, every field present in the payload holds
  the supplied value and every absent field keeps its stored value; so an update of
  \<^verbatim>\<open>full_name\<close> alone leaves \<^verbatim>\<open>email\<close>, \<^verbatim>\<open>username\<close>, \<^verbatim>\<open>is_active\<close> and \<^verbatim>\<open>created_at\<close>
  as they were. \<^verbatim>\<open>updated_at\<close> is the time of the update when the payload changes the
  stored value of at least one field, and is left as it was when every supplied value
  equals the stored one. The returned row is the one stored under the id afterwards,
  and the rows of other ids and the sequence are untouched.
\<close>

theorem update_frame:
  assumes "crud_get_user db user_id = Some u"
    and "main_update_user db now user_id user = (db', Inr u')"
  shows "id' u' = id' u \<and> created_at u' = created_at u \<and>
         User.email u' = (case UserUpdate.email user of None \<Rightarrow> User.email u | Some v \<Rightarrow> v) \<and>
         User.username u' =
           (case UserUpdate.username user of None \<Rightarrow> User.username u | Some v \<Rightarrow> v) \<and>
         User.full_name u' =
           (case UserUpdate.full_name user of None \<Rightarrow> User.full_name u | Some v \<Rightarrow> v) \<and>
         User.is_active u' =
           (case UserUpdate.is_active user of None \<Rightarrow> User.is_active u | Some v \<Rightarrow> v) \<and>
         updated_at u' =
           (if User.email u' = User.email u \<and> User.username u' = User.username u \<and>
               User.full_name u' = User.full_name u \<and> User.is_active u' = User.is_active u
            then updated_at u else Some now) \<and>
         crud_get_user db' user_id = Some u' \<and>
         filter (\<lambda>r. id' r \<noteq> user_id) (users db') = filter (\<lambda>r. id' r \<noteq> user_id) (users db) \<and>
         id_seq db' = id_seq db"
proof -
  let ?a = "foldl setattr u (model_dump user)"
  let ?row = "?a\<lparr>updated_at := Some now\<rparr>"
  have uid: "id' u = user_id"
    using assms(1) crud_get_user_SomeD by blast
  from main_update_user_success_cases [OF assms(1) assms(2) [unfolded main_update_user_def]]
  consider (same) "?a = u" "db' = db" "u' = u"
    | (changed) "?a \<noteq> u" "u' = ?row"
        "db' = db\<lparr>users := filter (\<lambda>r. id' r \<noteq> user_id) (users db) @ [?row]\<rparr>"
    by blast
  then show ?thesis
  proof cases
    case same
    from same(1) have
      "User.email ?a = User.email u" "User.username ?a = User.username u"
      "User.full_name ?a = User.full_name u" "User.is_active ?a = User.is_active u"
      by simp_all
    then show ?thesis
      using same(2,3) assms(1) by (simp add: foldl_setattr_model_dump)
  next
    case changed
    have get: "crud_get_user db' user_id = Some u'"
      unfolding changed crud_get_user_def
      using find_rewritten_row [of ?row user_id "users db"] uid by simp
    have others: "filter (\<lambda>r. id' r \<noteq> user_id) (users db') =
        filter (\<lambda>r. id' r \<noteq> user_id) (users db)"
      unfolding changed using filter_rewritten_row [of ?row user_id "users db"] uid by simp
    have fields:
      "id' u' = id' u" "created_at u' = created_at u"
      "User.email u' = (case UserUpdate.email user of None \<Rightarrow> User.email u | Some v \<Rightarrow> v)"
      "User.username u' =
         (case UserUpdate.username user of None \<Rightarrow> User.username u | Some v \<Rightarrow> v)"
      "User.full_name u' =
         (case UserUpdate.full_name user of None \<Rightarrow> User.full_name u | Some v \<Rightarrow> v)"
      "User.is_active u' =
         (case UserUpdate.is_active user of None \<Rightarrow> User.is_active u | Some v \<Rightarrow> v)"
      "updated_at u' = Some now"
      unfolding changed(2) by (simp_all add: foldl_setattr_model_dump)
    have differs: "\<not> (User.email u' = User.email u \<and> User.username u' = User.username u \<and>
        User.full_name u' = User.full_name u \<and> User.is_active u' = User.is_active u)"
      using changed(1) unfolding unchanged_iff fields
      by (auto split: option.splits)
    have stamp: "updated_at u' =
        (if User.email u' = User.email u \<and> User.username u' = User.username u \<and>
            User.full_name u' = User.full_name u \<and> User.is_active u' = User.is_active u
         then updated_at u else Some now)"
      using differs fields(7) by presburger
    have seq: "id_seq db' = id_seq db"
      unfolding changed(3) by simp
    from fields(1-6) stamp get others seq show ?thesis
      by (intro conjI)
  qed
qed

lemma get_alice: "crud_get_user sample_db 1 = Some alice_row"
  by (simp add: crud_get_user_def sample_db_def alice_row_def)

lemma get_bob: "crud_get_user sample_db 2 = Some bob_row"
  by (simp add: crud_get_user_def sample_db_def alice_row_def bob_row_def)

lemma rename_alice_result:
  "main_update_user sample_db 30 1 rename_alice =
     (sample_db\<lparr>users := [bob_row, alice_row\<lparr>User.full_name := Some ''X'', updated_at := Some 30\<rparr>]\<rparr>,
      Inr (alice_row\<lparr>User.full_name := Some ''X'', updated_at := Some 30\<rparr>))"
  by code_simp

theorem update_frame_witness:
  "crud_get_user sample_db 1 = Some alice_row \<and>
   main_update_user sample_db 30 1 rename_alice =
     (sample_db\<lparr>users := [bob_row, alice_row\<lparr>User.full_name := Some ''X'', updated_at := Some 30\<rparr>]\<rparr>,
      Inr (alice_row\<lparr>User.full_name := Some ''X'', updated_at := Some 30\<rparr>)) \<and>
   crud_get_user
     (sample_db\<lparr>users := [bob_row, alice_row\<lparr>User.full_name := Some ''X'', updated_at := Some 30\<rparr>]\<rparr>) 1 =
     Some (alice_row\<lparr>User.full_name := Some ''X'', updated_at := Some 30\<rparr>)"
proof -
  have "crud_get_user
     (sample_db\<lparr>users := [bob_row, alice_row\<lparr>User.full_name := Some ''X'', updated_at := Some 30\<rparr>]\<rparr>) 1 =
     Some (alice_row\<lparr>User.full_name := Some ''X'', updated_at := Some 30\<rparr>)"
    using update_frame [OF get_alice rename_alice_result] by (elim conjE)
  with get_alice rename_alice_result show ?thesis by (intro conjI)
qed

text \<open>
  C3 as stated fails: an accepted update of \<^verbatim>\<open>full_name\<close> alone, to the value the row
  already holds, at time 30, returns the row with \<^verbatim>\<open>updated_at\<close> still unset.
\<close>

theorem update_same_value_not_stamped:
  "crud_get_user sample_db 2 = Some bob_row \<and>
   main_update_user sample_db 30 2 rename_bob = (sample_db, Inr bob_row) \<and>
   updated_at bob_row \<noteq> Some 30"
  by code_simp

section \<open>Uniqueness in a consistent table\<close>

lemma store_ok_email_unique:
  assumes "store_ok db" "u \<in> set (users db)" "r \<in> set (users db)" "User.email r = User.email u"
  shows "r = u"
proof -
  from assms(1) have "inj_on User.email (set (users db))"
    by (simp add: store_ok_def distinct_map)
  with assms(2-4) show ?thesis by (auto dest: inj_onD)
qed

lemma store_ok_username_unique:
  assumes "store_ok db" "u \<in> set (users db)" "r \<in> set (users db)"
    "User.username r = User.username u"
  shows "r = u"
proof -
  from assms(1) have "inj_on User.username (set (users db))"
    by (simp add: store_ok_def distinct_map)
  with assms(2-4) show ?thesis by (auto dest: inj_onD)
qed

lemma store_ok_not_null:
  "store_ok db \<Longrightarrow> u \<in> set (users db) \<Longrightarrow>
   User.email u \<noteq> None \<and> User.username u \<noteq> None \<and> User.is_active u \<noteq> None"
  by (simp add: store_ok_def)




lemma update_email_check_own:
  assumes "store_ok db" "crud_get_user db user_id = Some u"
    "UserUpdate.email user = None \<or> UserUpdate.email user = Some (User.email u)"
  shows "update_email_check db user_id user = None"
proof -
  from assms(2) have u: "u \<in> set (users db)" "id' u = user_id"
    using crud_get_user_SomeD by blast+
  from update_email_check_cases [of db user_id user] show ?thesis
  proof
    assume "\<exists>e. update_email_check db user_id user =
                 Some (HTTPException 400 (detail_email_registered e)) \<and>
             attr (UserUpdate.email user) = Some e \<and>
             (\<exists>r \<in> set (users db). User.email r = Some e \<and> id' r \<noteq> user_id)"
    then obtain e r where "attr (UserUpdate.email user) = Some e"
      "r \<in> set (users db)" "User.email r = Some e" "id' r \<noteq> user_id"
      by blast
    moreover from this(1) assms(3) have "User.email u = Some e"
      by (auto simp: attr_def)
    ultimately show ?thesis
      using store_ok_email_unique [OF assms(1) u(1), of r] u(2) by simp
  qed
qed

lemma update_username_check_own:
  assumes "store_ok db" "crud_get_user db user_id = Some u"
    "UserUpdate.username user = None \<or> UserUpdate.username user = Some (User.username u)"
  shows "update_username_check db user_id user = None"
proof -
  from assms(2) have u: "u \<in> set (users db)" "id' u = user_id"
    using crud_get_user_SomeD by blast+
  from update_username_check_cases [of db user_id user] show ?thesis
  proof
    assume "\<exists>n. update_username_check db user_id user =
                 Some (HTTPException 400 (detail_username_taken n)) \<and>
             attr (UserUpdate.username user) = Some n \<and>
             (\<exists>r \<in> set (users db). User.username r = Some n \<and> id' r \<noteq> user_id)"
    then obtain n r where "attr (UserUpdate.username user) = Some n"
      "r \<in> set (users db)" "User.username r = Some n" "id' r \<noteq> user_id"
      by blast
    moreover from this(1) assms(3) have "User.username u = Some n"
      by (auto simp: attr_def)
    ultimately show ?thesis
      using store_ok_username_unique [OF assms(1) u(1), of r] u(2) by simp
  qed
qed

text \<open>A row that keeps its own email and username passes the constraints of its UPDATE.\<close>

lemma constraint_violation_own:
  assumes "store_ok db" "u \<in> set (users db)" "id' u = user_id"
    "User.email row = User.email u" "User.username row = User.username u"
    "User.is_active row \<noteq> None"
  shows "constraint_violation (filter (\<lambda>r. id' r \<noteq> user_id) (users db)) row = None"
proof -
  have "User.email u \<notin> User.email ` {r \<in> set (users db). id' r \<noteq> user_id}"
    using store_ok_email_unique [OF assms(1,2)] assms(3) by auto
  moreover have "User.username u \<notin> User.username ` {r \<in> set (users db). id' r \<noteq> user_id}"
    using store_ok_username_unique [OF assms(1,2)] assms(3) by auto
  ultimately show ?thesis
    using store_ok_not_null [OF assms(1,2)] assms(4-6)
    by (simp add: constraint_violation_def)
qed








lemma constraint_violation_NoneD:
  "constraint_violation others row = None \<Longrightarrow>
   User.email row \<noteq> None \<and> User.username row \<noteq> None \<and> User.is_active row \<noteq> None \<and>
   User.email row \<notin> User.email ` set others \<and> User.username row \<notin> User.username ` set others"
  by (simp add: constraint_violation_def split: if_splits)


section \<open>Updating a row to the values it holds\<close>








section \<open>Reading what was created\<close>



text \<open>What \<^verbatim>\<open>EmailStr\<close> makes of an address: the part after the last \<^verbatim>\<open>@\<close> in lower case.\<close>

lemma normalize_email_parts:
  assumes "CHR ''@'' \<notin> set domain"
  shows "normalize_email (local @ ''@'' @ domain) = local @ ''@'' @ map to_lower domain"
proof -
  have "takeWhile (\<lambda>c. c \<noteq> CHR ''@'') (rev domain @ CHR ''@'' # rev local) = rev domain"
    using assms by (subst takeWhile_append2) auto
  then have "domain_of (local @ ''@'' @ domain) = domain"
    by (simp add: domain_of_def)
  then show ?thesis
    by (simp add: normalize_email_def)
qed





section \<open>A null for a unique column\<close>

text \<open>
  C10. Take a stored user in a consistent table and an update body that sets \<^verbatim>\<open>email\<close>
  or \<^verbatim>\<open>username\<close> to \<^verbatim>\<open>null\<close>, the lookups of the handler raising no conflict. The body
  is not empty; the null field is as valid as an absent one; the uniqueness check of
  that field answers nothing on any table, since it tests the truthiness of the value;
  the object that is flushed holds \<^verbatim>\<open>None\<close> in that column; the store refuses the write
  with a NOT NULL violation on \<^verbatim>\<open>email\<close> or \<^verbatim>\<open>username\<close>; and the handler answers 400
  with the generic duplicate message \<^verbatim>\<open>Email or username already exists\<close> and leaves the
  table as it was.
\<close>

theorem null_unique_field_reported_as_duplicate:
  assumes "store_ok db" and "crud_get_user db user_id = Some u"
    and "UserUpdate.email user = Some None \<or> UserUpdate.username user = Some None"
    and "update_email_check db\<^sub>1 user_id user = None"
    and "update_username_check db\<^sub>2 user_id user = None"
  shows "model_dump user \<noteq> [] \<and>
         (UserUpdate.email user = Some None \<longrightarrow>
            UserUpdate_valid valid_email user =
              UserUpdate_valid valid_email (user\<lparr>UserUpdate.email := None\<rparr>) \<and>
            (\<forall>d. update_email_check d user_id user = None) \<and>
            User.email (foldl setattr u (model_dump user)) = None) \<and>
         (UserUpdate.username user = Some None \<longrightarrow>
            UserUpdate_valid valid_email user =
              UserUpdate_valid valid_email (user\<lparr>UserUpdate.username := None\<rparr>) \<and>
            (\<forall>d. update_username_check d user_id user = None) \<and>
            User.username (foldl setattr u (model_dump user)) = None) \<and>
         (\<exists>column. column \<in> {''email'', ''username''} \<and>
            crud_update_user db now user_id user =
              (db, Inl (IntegrityError (NotNullViolation column)))) \<and>
         main_update_user_racing db\<^sub>1 db\<^sub>2 db now user_id user =
           (db, Inl (HTTPException 400 ''Email or username already exists''))"
proof -
  let ?a = "foldl setattr u (model_dump user)"
  let ?row = "?a\<lparr>updated_at := Some now\<rparr>"
  from assms(2) have u: "u \<in> set (users db)" "id' u = user_id"
    using crud_get_user_SomeD by blast+
  have pos: "\<not> user_id < 1"
    using store_ok_id_pos [OF assms(1) u(1)] u(2) by simp
  have some: "model_dump user \<noteq> []"
    using assms(3) by (auto simp: model_dump_empty_iff)
  have nulled: "User.email ?a = None \<or> User.username ?a = None"
    using assms(3) by (auto simp: foldl_setattr_model_dump)
  then have changed: "?a \<noteq> u"
    using store_ok_not_null [OF assms(1) u(1)] by auto
  have "\<exists>column. column \<in> {''email'', ''username''} \<and>
      constraint_violation (filter (\<lambda>r. id' r \<noteq> user_id) (users db)) ?row =
        Some (NotNullViolation column)"
  proof (cases "User.email ?a = None")
    case True
    then show ?thesis by (simp add: constraint_violation_def)
  next
    case False
    with nulled have "User.username ?a = None" by simp
    with False show ?thesis by (simp add: constraint_violation_def)
  qed
  then obtain column where column: "column \<in> {''email'', ''username''}"
    "constraint_violation (filter (\<lambda>r. id' r \<noteq> user_id) (users db)) ?row =
       Some (NotNullViolation column)"
    by blast
  have refused: "crud_update_user db now user_id user =
      (db, Inl (IntegrityError (NotNullViolation column)))"
    using assms(2) changed column(2) by (simp add: crud_update_user_def Let_def)
  have answer: "main_update_user_racing db\<^sub>1 db\<^sub>2 db now user_id user =
      (db, Inl (HTTPException 400 detail_update_duplicate))"
    using pos some assms(4,5) refused by (simp add: main_update_user_racing_def)
  have email: "UserUpdate_valid valid_email user =
        UserUpdate_valid valid_email (user\<lparr>UserUpdate.email := None\<rparr>) \<and>
      (\<forall>d. update_email_check d user_id user = None) \<and> User.email ?a = None"
    if "UserUpdate.email user = Some None"
    using that
    by (simp add: UserUpdate_valid_def attr_def update_email_check_def truthy_def
        foldl_setattr_model_dump)
  have username: "UserUpdate_valid valid_email user =
        UserUpdate_valid valid_email (user\<lparr>UserUpdate.username := None\<rparr>) \<and>
      (\<forall>d. update_username_check d user_id user = None) \<and> User.username ?a = None"
    if "UserUpdate.username user = Some None"
    using that
    by (simp add: UserUpdate_valid_def attr_def update_username_check_def truthy_def
        foldl_setattr_model_dump)
  from some email username column(1) refused answer [unfolded detail_literals]
  show ?thesis by blast
qed

lemma null_email_checks:
  "update_email_check sample_db 1 null_email = None"
  "update_username_check sample_db 1 null_email = None"
  by code_simp+

theorem null_unique_field_reported_as_duplicate_witness:
  "store_ok sample_db \<and> crud_get_user sample_db 1 = Some alice_row \<and>
   UserUpdate.email null_email = Some None \<and>
   update_email_check sample_db 1 null_email = None \<and>
   update_username_check sample_db 1 null_email = None \<and>
   main_update_user_racing sample_db sample_db sample_db 30 1 null_email =
     (sample_db, Inl (HTTPException 400 ''Email or username already exists''))"
proof -
  have null: "UserUpdate.email null_email = Some None"
    by (simp add: null_email_def)
  from null_unique_field_reported_as_duplicate
    [where now = 30 and valid_email = "\<lambda>_. True",
      OF store_ok_sample_db get_alice disjI1 [OF null] null_email_checks]
  have "main_update_user_racing sample_db sample_db sample_db 30 1 null_email =
     (sample_db, Inl (HTTPException 400 ''Email or username already exists''))"
    by (elim conjE)
  with store_ok_sample_db get_alice null null_email_checks show ?thesis by (intro conjI)
qed

end
